theory Spec2Isabelle
  imports Complex_Main "HOL-Library.AList"
begin

section \<open>Values, rows and errors\<close>

text \<open>
  The service layer works on rows that the driver's dictionary cursor returns: a Python
  \<^verbatim>\<open>dict\<close> from column name to value, in column order. A row is an association list;
  \<^verbatim>\<open>row[k]\<close> raises \<^verbatim>\<open>KeyError\<close> on a missing column and \<^verbatim>\<open>row.get(k)\<close>
  gives \<^verbatim>\<open>None\<close>. A value is \<^verbatim>\<open>NULL\<close>, an integer (booleans are stored as 0 and 1),
  a string, a time in seconds, or a list of strings (the decoded tags of an article).
\<close>

datatype sqlval = SNull | SInt int | SStr string | STime int | SList "string list"

type_synonym row = "(string \<times> sqlval) list"

type_synonym table = "row list"

datatype error =
    HTTPException nat
  | KeyError string
  | TypeError
  | ZeroDivisionError
  | QueryError string
  | PoolInitError
  | JWTError
  | ValueError
  | UnknownHashError
  | ValidationError

definition getitem :: "row \<Rightarrow> string \<Rightarrow> error + sqlval" where
  "getitem r k = (case map_of r k of None \<Rightarrow> Inl (KeyError k) | Some v \<Rightarrow> Inr v)"

section \<open>Roles and the role check (common/auth.py, models/user\_models/user.py)\<close>

datatype UserRole = ADMIN | USER | MODERATOR

fun role_value :: "UserRole \<Rightarrow> string" where
  "role_value ADMIN = ''admin''"
| "role_value USER = ''user''"
| "role_value MODERATOR = ''moderator''"

text \<open>
  \<^verbatim>\<open>get_current_active_user\<close>: the row of the current user passes when its
  \<^verbatim>\<open>status\<close> column is \<^verbatim>\<open>"active"\<close>, and is refused with status 400 otherwise.
\<close>

definition get_current_active_user :: "row \<Rightarrow> error + row" where
  "get_current_active_user current_user =
     (case getitem current_user ''status'' of
        Inl e \<Rightarrow> Inl e
      | Inr s \<Rightarrow> if s \<noteq> SStr ''active'' then Inl (HTTPException 400) else Inr current_user)"

text \<open>
  \<^verbatim>\<open>require_role(required_role)\<close> returns the checker; the checker reads
  \<^verbatim>\<open>current_user["role"]\<close> (twice, left to right, with Python's short-circuit
  \<^verbatim>\<open>and\<close>) and raises 403 when it is neither the required value nor \<^verbatim>\<open>"admin"\<close>.
\<close>

definition role_checker :: "UserRole \<Rightarrow> row \<Rightarrow> error + row" where
  "role_checker required_role current_user =
     (case getitem current_user ''role'' of
        Inl e \<Rightarrow> Inl e
      | Inr r \<Rightarrow>
          if r \<noteq> SStr (role_value required_role) \<and> r \<noteq> SStr ''admin''
          then Inl (HTTPException 403)
          else Inr current_user)"

definition require_role :: "UserRole \<Rightarrow> row \<Rightarrow> error + row" where
  "require_role required_role dep =
     (case get_current_active_user dep of
        Inl e \<Rightarrow> Inl e
      | Inr current_user \<Rightarrow> role_checker required_role current_user)"

section \<open>Pagination (db/async\_mysql.py, fetch\_paginated)\<close>

text \<open>
  The envelope that \<^verbatim>\<open>fetch_paginated\<close> returns.
\<close>

record envelope =
  items :: "row list"
  total :: int
  page :: int
  page_size :: int
  total_pages :: int

definition window_offset :: "int \<Rightarrow> int \<Rightarrow> int" where
  "window_offset pg ps = (pg - 1) * ps"

text \<open>
  The database answers the two statements that \<^verbatim>\<open>fetch_paginated\<close> sends over the
  rows \<open>rows\<close> of the base query: the count statement gives their number, and the
  statement with \<^verbatim>\<open>LIMIT n OFFSET m\<close> gives \<open>n\<close> rows after the first \<open>m\<close>; MySQL
  refuses a negative \<open>n\<close> or \<open>m\<close> as a syntax error.
\<close>

definition count_query :: "row list \<Rightarrow> int" where
  "count_query rows = int (length rows)"

definition window_query :: "row list \<Rightarrow> int \<Rightarrow> int \<Rightarrow> error + row list" where
  "window_query rows n m =
     (if n < 0 \<or> m < 0 then Inl (QueryError ''syntax'')
      else Inr (take (nat n) (drop (nat m) rows)))"

text \<open>
  \<^verbatim>\<open>fetch_paginated\<close>: the offset is computed first, the count statement runs, then
  the windowed one, and the envelope is built last, where \<^verbatim>\<open>//\<close> raises on a zero
  page size. Python's \<^verbatim>\<open>//\<close> on integers is floor division, as \<open>div\<close> on \<open>int\<close> is.
\<close>

definition fetch_paginated :: "row list \<Rightarrow> int \<Rightarrow> int \<Rightarrow> error + envelope" where
  "fetch_paginated rows pg ps =
     (let offset = window_offset pg ps;
          total = count_query rows
      in case window_query rows ps offset of
           Inl e \<Rightarrow> Inl e
         | Inr data \<Rightarrow>
             if ps = 0 then Inl ZeroDivisionError
             else Inr \<lparr>items = data, total = total, page = pg, page_size = ps,
                        total_pages = (total + ps - 1) div ps\<rparr>)"

section \<open>Connections and transactions (db/async\_mysql.py)\<close>

text \<open>
  A connection taken from the pool (created with \<^verbatim>\<open>autocommit=False\<close>) sees the
  committed database and works on its own copy: statements change \<open>working\<close>,
  \<^verbatim>\<open>commit\<close> publishes it and \<^verbatim>\<open>rollback\<close> discards it. The database state \<open>'d\<close> is
  arbitrary. The pool is taken to exist here; its creation is modelled in the last section of the definitions.
\<close>

record 'd connection =
  committed :: 'd
  working :: 'd

definition acquire :: "'d \<Rightarrow> 'd connection" where
  "acquire db = \<lparr>committed = db, working = db\<rparr>"

definition begin_txn :: "'d connection \<Rightarrow> 'd connection" where
  "begin_txn c = c"

definition commit :: "'d connection \<Rightarrow> 'd connection" where
  "commit c = c\<lparr>committed := working c\<rparr>"

definition rollback :: "'d connection \<Rightarrow> 'd connection" where
  "rollback c = c\<lparr>working := committed c\<rparr>"

text \<open>
  Releasing a connection to the pool drops whatever it has not committed.
\<close>

definition release :: "'d connection \<Rightarrow> 'd" where
  "release c = committed c"

type_synonym ('d, 'a) body = "'d connection \<Rightarrow> (error + 'a) \<times> 'd connection"

text \<open>
  \<^verbatim>\<open>get_connection\<close>: the body runs on the acquired connection; an exception of the body
  rolls the connection back and is raised again; the connection is released on both
  paths.
\<close>

definition get_connection :: "('d, 'a) body \<Rightarrow> 'd \<Rightarrow> (error + 'a) \<times> 'd" where
  "get_connection body db =
     (case body (acquire db) of
        (Inl e, c) \<Rightarrow> (Inl e, release (rollback c))
      | (Inr v, c) \<Rightarrow> (Inr v, release c))"

text \<open>
  \<^verbatim>\<open>transaction\<close>: inside \<^verbatim>\<open>get_connection\<close>, begin, run the body, commit; an
  exception rolls back and is raised again (to \<^verbatim>\<open>get_connection\<close>, which rolls back
  once more).
\<close>

definition transaction :: "('d, 'a) body \<Rightarrow> 'd \<Rightarrow> (error + 'a) \<times> 'd" where
  "transaction body db =
     get_connection
       (\<lambda>conn. case body (begin_txn conn) of
                  (Inl e, c) \<Rightarrow> (Inl e, rollback c)
                | (Inr v, c) \<Rightarrow> (Inr v, commit c))
       db"

text \<open>
  A statement is given by what one execution with one parameter set does to the
  database: it fails, or it returns its row count and the changed state. The cursor's
  \<^verbatim>\<open>execute\<close> runs it on the connection's working state; \<^verbatim>\<open>executemany\<close> runs
  it for each parameter set in order, adds the row counts up and stops at the first
  failure, leaving the earlier executions in the working state.
\<close>

type_synonym ('p, 'd) statement = "'p \<Rightarrow> 'd \<Rightarrow> error + nat \<times> 'd"

definition cursor_execute :: "('p, 'd) statement \<Rightarrow> 'p \<Rightarrow> ('d, nat) body" where
  "cursor_execute stmt p c =
     (case stmt p (working c) of
        Inl e \<Rightarrow> (Inl e, c)
      | Inr (n, w) \<Rightarrow> (Inr n, c\<lparr>working := w\<rparr>))"

fun cursor_executemany :: "('p, 'd) statement \<Rightarrow> 'p list \<Rightarrow> ('d, nat) body" where
  "cursor_executemany stmt [] c = (Inr 0, c)"
| "cursor_executemany stmt (p # ps) c =
     (case cursor_execute stmt p c of
        (Inl e, c') \<Rightarrow> (Inl e, c')
      | (Inr n, c') \<Rightarrow>
          (case cursor_executemany stmt ps c' of
             (Inl e, c'') \<Rightarrow> (Inl e, c'')
           | (Inr m, c'') \<Rightarrow> (Inr (n + m), c'')))"

text \<open>
  \<^verbatim>\<open>execute\<close> and \<^verbatim>\<open>execute_many\<close>. With \<^verbatim>\<open>use_transaction\<close> the statement runs in
  a \<^verbatim>\<open>transaction\<close> scope; without, it runs on a plain connection and is committed
  right after.
\<close>

definition execute :: "('p, 'd) statement \<Rightarrow> 'p \<Rightarrow> bool \<Rightarrow> 'd \<Rightarrow> (error + nat) \<times> 'd" where
  "execute stmt p use_transaction db =
     (if use_transaction then transaction (cursor_execute stmt p) db
      else get_connection
             (\<lambda>conn. case cursor_execute stmt p conn of
                        (Inl e, c) \<Rightarrow> (Inl e, c)
                      | (Inr n, c) \<Rightarrow> (Inr n, commit c))
             db)"

definition execute_many ::
  "('p, 'd) statement \<Rightarrow> 'p list \<Rightarrow> bool \<Rightarrow> 'd \<Rightarrow> (error + nat) \<times> 'd" where
  "execute_many stmt params_list use_transaction db =
     (if use_transaction then transaction (cursor_executemany stmt params_list) db
      else get_connection
             (\<lambda>conn. case cursor_executemany stmt params_list conn of
                        (Inl e, c) \<Rightarrow> (Inl e, c)
                      | (Inr n, c) \<Rightarrow> (Inr n, commit c))
             db)"

text \<open>
  The batch as a pure function of the database: the state after every execution, or
  the first error.
\<close>

fun run_batch :: "('p, 'd) statement \<Rightarrow> 'p list \<Rightarrow> 'd \<Rightarrow> error + nat \<times> 'd" where
  "run_batch stmt [] db = Inr (0, db)"
| "run_batch stmt (p # ps) db =
     (case stmt p db of
        Inl e \<Rightarrow> Inl e
      | Inr (n, db') \<Rightarrow>
          (case run_batch stmt ps db' of
             Inl e \<Rightarrow> Inl e
           | Inr (m, db'') \<Rightarrow> Inr (n + m, db'')))"

text \<open>
  An example statement for a table with a unique \<^verbatim>\<open>id\<close> column: inserting a row
  whose id is already present fails, as a duplicate key does.
\<close>

definition insert_unique :: "(row, table) statement" where
  "insert_unique r tbl =
     (if map_of r ''id'' \<in> set (map (\<lambda>x. map_of x ''id'') tbl)
      then Inl (QueryError ''duplicate'')
      else Inr (1, tbl @ [r]))"

section \<open>Access tokens (common/auth.py)\<close>

text \<open>
  The claims of a token are a dictionary from names to JSON values, as
  \<^verbatim>\<open>data: dict\<close> has it. Numbers are integers here, and a value is no object and no
  \<^verbatim>\<open>datetime\<close>: the expiry, which is the only time the code writes, is a number of
  seconds.
\<close>

datatype json = JNull | JBool bool | JInt int | JStr string | JArr "json list"


















record TokenData =
  username :: "string option"










section \<open>Reading the tables\<close>

text \<open>
  \<^verbatim>\<open>fetch_one\<close> gives the first row of the result, or \<^verbatim>\<open>None\<close>; the condition of the
  statement is a predicate on rows.
\<close>

definition fetch_one :: "(row \<Rightarrow> bool) \<Rightarrow> table \<Rightarrow> row option" where
  "fetch_one matches tbl = find matches tbl"

definition has_id :: "int \<Rightarrow> row \<Rightarrow> bool" where
  "has_id i r = (map_of r ''id'' = Some (SInt i))"

text \<open>
  \<^verbatim>\<open>WHERE username = %s AND is_active = 1\<close>
\<close>

definition active_with_username :: "string \<Rightarrow> row \<Rightarrow> bool" where
  "active_with_username u r =
     (map_of r ''username'' = Some (SStr u) \<and> map_of r ''is_active'' = Some (SInt 1))"

text \<open>
  \<^verbatim>\<open>WHERE username = %s OR email = %s\<close>
\<close>

definition username_or_email :: "string \<Rightarrow> string \<Rightarrow> row \<Rightarrow> bool" where
  "username_or_email u e r =
     (map_of r ''username'' = Some (SStr u) \<or> map_of r ''email'' = Some (SStr e))"

text \<open>
  Python's truth value of an optional row: \<^verbatim>\<open>None\<close> and the empty dictionary are false.
\<close>

definition row_truthy :: "row option \<Rightarrow> bool" where
  "row_truthy r = (case r of None \<Rightarrow> False | Some d \<Rightarrow> d \<noteq> [])"

section \<open>Where a call runs, and what a request does\<close>

text \<open>
  The body of a coroutine runs on the thread of the event loop, and so does every
  function it calls directly; \<^verbatim>\<open>run_in_thread\<close> hands a function to the thread pool
  executor. A function that matters here takes the site it runs on and logs what it
  does.
\<close>

datatype site = EventLoop | WorkerThread

datatype event = DbQuery | PasswordHash site | PasswordVerify site

text \<open>
  A hashing event is offloaded when it runs on a worker thread.
\<close>

definition offloaded :: "event \<Rightarrow> bool" where
  "offloaded e =
     (case e of
        DbQuery \<Rightarrow> True
      | PasswordHash s \<Rightarrow> s = WorkerThread
      | PasswordVerify s \<Rightarrow> s = WorkerThread)"

definition run_in_thread :: "(site \<Rightarrow> 'a) \<Rightarrow> 'a" where
  "run_in_thread func = func WorkerThread"

text \<open>
  The password library is not part of the repository. \<^verbatim>\<open>pwd_context\<close> is a context
  with the one scheme bcrypt, and its \<^verbatim>\<open>verify\<close> is modelled after its documented
  behaviour: a hash that is \<^verbatim>\<open>None\<close> verifies no password; a hash that is no string
  is a \<^verbatim>\<open>TypeError\<close>; a string is first identified, by the prefix of a bcrypt hash,
  and a string that is not identified raises \<^verbatim>\<open>UnknownHashError\<close>; an identified
  string is handed to the scheme. What the scheme answers is the parameter \<open>bcrypt\<close>:
  whether the password matches, or the exception it raises, as it does on a hash that
  has the prefix and is malformed.
\<close>

definition bcrypt_idents :: "string list" where
  "bcrypt_idents = [''$2$'', ''$2a$'', ''$2x$'', ''$2y$'', ''$2b$'']"

definition identify :: "string \<Rightarrow> bool" where
  "identify h = list_ex (\<lambda>ident. take (length ident) h = ident) bcrypt_idents"

definition pwd_context_verify ::
  "(string \<Rightarrow> string \<Rightarrow> error + bool) \<Rightarrow> string \<Rightarrow> sqlval \<Rightarrow> error + bool" where
  "pwd_context_verify bcrypt secret hash =
     (case hash of
        SNull \<Rightarrow> Inr False
      | SStr h \<Rightarrow> if identify h then bcrypt secret h else Inl UnknownHashError
      | _ \<Rightarrow> Inl TypeError)"

text \<open>
  \<open>hash\<close> is the hash the library computes in this call.
  \<^verbatim>\<open>verify_password\<close> and \<^verbatim>\<open>get_password_hash\<close> call the library on the thread they
  are called on, and neither catches an exception.
\<close>

definition verify_password ::
  "(string \<Rightarrow> string \<Rightarrow> error + bool) \<Rightarrow> site \<Rightarrow> string \<Rightarrow> sqlval
     \<Rightarrow> (error + bool) \<times> event list" where
  "verify_password bcrypt here plain_password hashed_password =
     (pwd_context_verify bcrypt plain_password hashed_password, [PasswordVerify here])"

definition get_password_hash ::
  "(string \<Rightarrow> string) \<Rightarrow> site \<Rightarrow> string \<Rightarrow> string \<times> event list" where
  "get_password_hash hash here password = (hash password, [PasswordHash here])"

section \<open>The user service (service/user\_handler/user.py)\<close>

text \<open>
  \<^verbatim>\<open>authenticate_user\<close>, running on \<open>here\<close>: the result and the events, in order.
\<close>

definition authenticate_user ::
  "(string \<Rightarrow> string \<Rightarrow> error + bool) \<Rightarrow> site \<Rightarrow> table \<Rightarrow> string \<Rightarrow> string
     \<Rightarrow> (error + row option) \<times> event list" where
  "authenticate_user bcrypt here users uname password =
     (let user = fetch_one (active_with_username uname) users
      in if \<not> row_truthy user then (Inr None, [DbQuery])
         else case getitem (the user) ''password_hash'' of
                Inl e \<Rightarrow> (Inl e, [DbQuery])
              | Inr h \<Rightarrow>
                  (case verify_password bcrypt here password h of
                     (Inl e, evs) \<Rightarrow> (Inl e, DbQuery # evs)
                   | (Inr ok, evs) \<Rightarrow>
                       if \<not> ok then (Inr None, DbQuery # evs)
                       else (Inr user, DbQuery # evs)))"

datatype UserStatus = ACTIVE | INACTIVE | BANNED

fun status_value :: "UserStatus \<Rightarrow> string" where
  "status_value ACTIVE = ''active''"
| "status_value INACTIVE = ''inactive''"
| "status_value BANNED = ''banned''"

record UserCreate =
  uc_username :: string
  uc_email :: string
  uc_full_name :: "string option"
  uc_role :: UserRole
  uc_status :: UserStatus
  uc_password :: string

definition opt_str :: "string option \<Rightarrow> sqlval" where
  "opt_str s = (case s of None \<Rightarrow> SNull | Some v \<Rightarrow> SStr v)"

text \<open>
  The effect of \<^verbatim>\<open>insert\<close> on a table: the row holds the columns the statement names
  and the identifier the table generates (the next one after the largest present); the
  schema, with the defaults of the other columns, is not part of the sources.
\<close>

definition next_id :: "table \<Rightarrow> int" where
  "next_id tbl =
     1 + fold (\<lambda>r m. case map_of r ''id'' of Some (SInt i) \<Rightarrow> max i m | _ \<Rightarrow> m) tbl 0"

definition db_insert :: "row \<Rightarrow> table \<Rightarrow> int \<times> table" where
  "db_insert data tbl = (next_id tbl, tbl @ [(''id'', SInt (next_id tbl)) # data])"

text \<open>
  \<^verbatim>\<open>create_user\<close>, running on \<open>here\<close> at time \<open>now\<close>: the result, the table and the
  events.
\<close>

definition create_user ::
  "(string \<Rightarrow> string) \<Rightarrow> site \<Rightarrow> int \<Rightarrow> table \<Rightarrow> UserCreate
     \<Rightarrow> (error + row option) \<times> table \<times> event list" where
  "create_user hash here now users user_data =
     (let existing_user =
            fetch_one (username_or_email (uc_username user_data) (uc_email user_data)) users
      in if row_truthy existing_user then (Inl (HTTPException 400), users, [DbQuery])
         else
           let (password_hash, evs) = get_password_hash hash here (uc_password user_data);
               (user_id, users') =
                 db_insert
                   [(''username'', SStr (uc_username user_data)),
                    (''email'', SStr (uc_email user_data)),
                    (''full_name'', opt_str (uc_full_name user_data)),
                    (''password_hash'', SStr password_hash),
                    (''role'', SStr (role_value (uc_role user_data))),
                    (''status'', SStr (status_value (uc_status user_data))),
                    (''is_active'', SInt 1),
                    (''created_at'', STime now)]
                   users
           in (Inr (fetch_one (has_id user_id) users'), users',
               [DbQuery] @ evs @ [DbQuery, DbQuery]))"

definition get_user_by_id :: "table \<Rightarrow> int \<Rightarrow> row option" where
  "get_user_by_id users user_id = fetch_one (has_id user_id) users"

section \<open>Partial updates (service/user\_handler/user.py, service/article\_handler/article.py)\<close>

text \<open>
  The effect of \<^verbatim>\<open>UPDATE t SET c1 = %s, ... WHERE id = %s\<close>: in every row with the
  identifier, each column of the list takes its value, left to right; the other rows
  stay. The schema is not part of the sources, so a row is taken to hold every column
  the statement names. \<^verbatim>\<open>update\<close> of the database handler runs the statement through
  \<^verbatim>\<open>execute\<close> without a transaction scope.
\<close>

definition set_columns :: "row \<Rightarrow> row \<Rightarrow> row" where
  "set_columns data r = fold (\<lambda>(k, v). AList.update k v) data r"

definition update_where_id :: "(row \<times> int, table) statement" where
  "update_where_id p tbl =
     (case p of
        (data, ident) \<Rightarrow>
          Inr (length (filter (has_id ident) tbl),
               map (\<lambda>r. if has_id ident r then set_columns data r else r) tbl))"

definition db_update :: "row \<Rightarrow> int \<Rightarrow> table \<Rightarrow> (error + nat) \<times> table" where
  "db_update data ident tbl = execute update_where_id (data, ident) False tbl"

text \<open>
  \<^verbatim>\<open>if x is not None: update_fields[k] = x\<close>
\<close>

definition add_field :: "string \<Rightarrow> sqlval option \<Rightarrow> row \<Rightarrow> row" where
  "add_field k x update_fields =
     (case x of None \<Rightarrow> update_fields | Some v \<Rightarrow> AList.update k v update_fields)"

record UserUpdate =
  uu_username :: "string option"
  uu_email :: "string option"
  uu_full_name :: "string option"
  uu_role :: "UserRole option"
  uu_status :: "UserStatus option"

definition user_update_fields :: "UserUpdate \<Rightarrow> row" where
  "user_update_fields user_data =
     (let update_fields = [];
          update_fields = add_field ''username'' (map_option SStr (uu_username user_data))
                            update_fields;
          update_fields = add_field ''email'' (map_option SStr (uu_email user_data))
                            update_fields;
          update_fields = add_field ''full_name'' (map_option SStr (uu_full_name user_data))
                            update_fields;
          update_fields = add_field ''role''
                            (map_option (\<lambda>r. SStr (role_value r)) (uu_role user_data))
                            update_fields;
          update_fields = add_field ''status''
                            (map_option (\<lambda>s. SStr (status_value s)) (uu_status user_data))
                            update_fields
      in update_fields)"

text \<open>
  \<^verbatim>\<open>update_user\<close> at time \<open>now\<close>: the result and the users table.
\<close>

definition update_user ::
  "int \<Rightarrow> table \<Rightarrow> int \<Rightarrow> UserUpdate \<Rightarrow> (error + row option) \<times> table" where
  "update_user now users user_id user_data =
     (let update_fields = user_update_fields user_data
      in if update_fields = [] then (Inl (HTTPException 400), users)
         else
           let update_fields = AList.update ''updated_at'' (STime now) update_fields
           in case db_update update_fields user_id users of
                (Inl e, users') \<Rightarrow> (Inl e, users')
              | (Inr n, users') \<Rightarrow> (Inr (get_user_by_id users' user_id), users'))"

record ArticleUpdate =
  au_title :: "string option"
  au_content :: "string option"
  au_summary :: "string option"
  au_tags :: "string list option"
  au_is_published :: "bool option"

text \<open>
  A field of a request body is left out, \<^verbatim>\<open>null\<close>, or given. The update model of an
  article takes each field from the body, with the default of the class for a field
  that is left out: \<^verbatim>\<open>None\<close> for all but \<^verbatim>\<open>tags\<close>, whose default is the empty list.
  The length limits of the fields are not modelled.
\<close>

datatype 'a field = Omitted | Null | Given 'a

fun from_body :: "'a option \<Rightarrow> 'a field \<Rightarrow> 'a option" where
  "from_body dflt Omitted = dflt"
| "from_body dflt Null = None"
| "from_body dflt (Given v) = Some v"

definition ArticleUpdate_of_body ::
  "string field \<Rightarrow> string field \<Rightarrow> string field \<Rightarrow> string list field \<Rightarrow> bool field
     \<Rightarrow> ArticleUpdate" where
  "ArticleUpdate_of_body title content summary tags is_published =
     \<lparr>au_title = from_body None title,
      au_content = from_body None content,
      au_summary = from_body None summary,
      au_tags = from_body (Some []) tags,
      au_is_published = from_body None is_published\<rparr>"

text \<open>
  The fields of an article update; \<open>dumps\<close> is the JSON encoder of the standard library,
  and a boolean goes to the driver as 1 or 0.
\<close>

definition article_update_fields :: "(string list \<Rightarrow> string) \<Rightarrow> ArticleUpdate \<Rightarrow> row" where
  "article_update_fields dumps article_data =
     (let update_fields = [];
          update_fields = add_field ''title'' (map_option SStr (au_title article_data))
                            update_fields;
          update_fields = add_field ''content'' (map_option SStr (au_content article_data))
                            update_fields;
          update_fields = add_field ''summary'' (map_option SStr (au_summary article_data))
                            update_fields;
          update_fields = add_field ''tags''
                            (map_option (\<lambda>t. SStr (dumps t)) (au_tags article_data))
                            update_fields;
          update_fields = add_field ''is_published''
                            (map_option (\<lambda>b. SInt (if b then 1 else 0))
                               (au_is_published article_data))
                            update_fields
      in update_fields)"

text \<open>
  Python's truth value of \<^verbatim>\<open>row.get(k)\<close>.
\<close>

definition truthy :: "sqlval option \<Rightarrow> bool" where
  "truthy x =
     (case x of
        None \<Rightarrow> False
      | Some SNull \<Rightarrow> False
      | Some (SInt i) \<Rightarrow> i \<noteq> 0
      | Some (SStr s) \<Rightarrow> s \<noteq> []
      | Some (STime t) \<Rightarrow> True
      | Some (SList l) \<Rightarrow> l \<noteq> [])"

text \<open>
  \<^verbatim>\<open>get_article_by_id\<close>: the article joined with the name of its author (\<^verbatim>\<open>NULL\<close>
  without one), its tags decoded by \<open>loads\<close>, the JSON decoder, which raises on a value
  that is not a string.
\<close>

definition author_name :: "table \<Rightarrow> row \<Rightarrow> sqlval" where
  "author_name users a =
     (case map_of a ''author_id'' of
        Some (SInt i) \<Rightarrow>
          (case fetch_one (has_id i) users of
             None \<Rightarrow> SNull
           | Some u \<Rightarrow> (case map_of u ''username'' of None \<Rightarrow> SNull | Some v \<Rightarrow> v))
      | _ \<Rightarrow> SNull)"

definition get_article_by_id ::
  "(string \<Rightarrow> string list) \<Rightarrow> table \<Rightarrow> table \<Rightarrow> int \<Rightarrow> error + row option" where
  "get_article_by_id loads articles users article_id =
     (case fetch_one (has_id article_id) articles of
        None \<Rightarrow> Inr None
      | Some a \<Rightarrow>
          (let article = a @ [(''author_name'', author_name users a)]
           in if truthy (map_of article ''tags'')
              then (case map_of article ''tags'' of
                      Some (SStr s) \<Rightarrow> Inr (Some (AList.update ''tags'' (SList (loads s)) article))
                    | _ \<Rightarrow> Inl TypeError)
              else Inr (Some article)))"

text \<open>
  The permission check of \<^verbatim>\<open>update_article\<close>: the author may edit, and so may an
  admin; the role of the user is read only when the user is not the author, and reading
  it from a user that does not exist raises.
\<close>

definition may_edit :: "row \<Rightarrow> row option \<Rightarrow> int \<Rightarrow> error + unit" where
  "may_edit article user user_id =
     (case getitem article ''author_id'' of
        Inl e \<Rightarrow> Inl e
      | Inr author \<Rightarrow>
          if author \<noteq> SInt user_id
          then (case user of
                  None \<Rightarrow> Inl TypeError
                | Some u \<Rightarrow>
                    (case getitem u ''role'' of
                       Inl e \<Rightarrow> Inl e
                     | Inr role \<Rightarrow>
                         if role \<noteq> SStr ''admin'' then Inl (HTTPException 403)
                         else Inr ()))
          else Inr ())"

text \<open>
  \<^verbatim>\<open>update_article\<close> at time \<open>now\<close>: the result and the articles table.
\<close>

definition update_article ::
  "int \<Rightarrow> (string list \<Rightarrow> string) \<Rightarrow> (string \<Rightarrow> string list) \<Rightarrow> table \<Rightarrow> table
     \<Rightarrow> int \<Rightarrow> ArticleUpdate \<Rightarrow> int \<Rightarrow> (error + row option) \<times> table" where
  "update_article now dumps loads articles users article_id article_data user_id =
     (let article = fetch_one (has_id article_id) articles
      in if \<not> row_truthy article then (Inl (HTTPException 404), articles)
         else
           let user = fetch_one (has_id user_id) users
           in case may_edit (the article) user user_id of
                Inl e \<Rightarrow> (Inl e, articles)
              | Inr _ \<Rightarrow>
                  (let update_fields = article_update_fields dumps article_data
                   in if update_fields = [] then (Inl (HTTPException 400), articles)
                      else
                        let update_fields =
                              AList.update ''updated_at'' (STime now) update_fields
                        in case db_update update_fields article_id articles of
                             (Inl e, articles') \<Rightarrow> (Inl e, articles')
                           | (Inr n, articles') \<Rightarrow>
                               (get_article_by_id loads articles' users article_id,
                                articles')))"

section \<open>The statements that are sent (db/async\_mysql.py and the services)\<close>

text \<open>
  A statement goes to the driver as a text with \<^verbatim>\<open>%s\<close> placeholders and a list of
  values that the driver binds to them.
\<close>

record statement_sent =
  sql_text :: string
  sql_params :: "sqlval list"

text \<open>
  Python's formatting of an integer in an f-string: decimal digits, with a minus sign
  for a negative number.
\<close>

definition digit :: "nat \<Rightarrow> char" where
  "digit n = ''0123456789'' ! n"

function str_nat :: "nat \<Rightarrow> string" where
  "str_nat n = (if n < 10 then [digit n] else str_nat (n div 10) @ [digit (n mod 10)])"
  by pat_completeness auto
termination
  by (relation "measure (\<lambda>n. n)") auto

declare str_nat.simps [simp del]

definition str_int :: "int \<Rightarrow> string" where
  "str_int i = (if i < 0 then CHR ''-'' # str_nat (nat (- i)) else str_nat (nat i))"

text \<open>
  \<^verbatim>\<open>sep.join(xs)\<close>
\<close>

fun join :: "string \<Rightarrow> string list \<Rightarrow> string" where
  "join sep [] = []"
| "join sep [x] = x"
| "join sep (x # y # ys) = x @ sep @ join sep (y # ys)"

text \<open>
  The two statements of \<^verbatim>\<open>fetch_paginated\<close>, in the order they are executed, both
  with the parameters of the caller.
\<close>

definition paginated_sql :: "string \<Rightarrow> int \<Rightarrow> int \<Rightarrow> string" where
  "paginated_sql sql pg ps =
     sql @ '' LIMIT '' @ str_int ps @ '' OFFSET '' @ str_int (window_offset pg ps)"

definition count_sql :: "string \<Rightarrow> string" where
  "count_sql sql = ''SELECT COUNT(*) as total FROM ('' @ sql @ '') as count_table''"

definition fetch_paginated_statements ::
  "string \<Rightarrow> int \<Rightarrow> int \<Rightarrow> sqlval list \<Rightarrow> statement_sent list" where
  "fetch_paginated_statements sql pg ps params =
     [\<lparr>sql_text = count_sql sql, sql_params = params\<rparr>,
      \<lparr>sql_text = paginated_sql sql pg ps, sql_params = params\<rparr>]"

text \<open>
  The statements of \<^verbatim>\<open>insert\<close>, \<^verbatim>\<open>update\<close> and \<^verbatim>\<open>delete\<close>. The data is a dictionary
  in insertion order; the optional parameters of the condition are added when they are
  neither \<^verbatim>\<open>None\<close> nor empty.
\<close>

definition insert_statement :: "string \<Rightarrow> row \<Rightarrow> statement_sent" where
  "insert_statement tbl data =
     (let columns = join '', '' (map fst data);
          placeholders = join '', '' (replicate (length data) ''%s'')
      in \<lparr>sql_text = ''INSERT INTO '' @ tbl @ '' ('' @ columns @ '') VALUES (''
                         @ placeholders @ '')'',
          sql_params = map snd data\<rparr>)"

definition update_statement ::
  "string \<Rightarrow> row \<Rightarrow> string \<Rightarrow> sqlval list option \<Rightarrow> statement_sent" where
  "update_statement tbl data wher where_params =
     (let set_clause = join '', '' (map (\<lambda>k. k @ '' = %s'') (map fst data));
          params = map snd data;
          params = (case where_params of None \<Rightarrow> params | Some ws \<Rightarrow> params @ ws)
      in \<lparr>sql_text = ''UPDATE '' @ tbl @ '' SET '' @ set_clause @ '' WHERE '' @ wher,
          sql_params = params\<rparr>)"

definition delete_statement ::
  "string \<Rightarrow> string \<Rightarrow> sqlval list option \<Rightarrow> statement_sent" where
  "delete_statement tbl wher where_params =
     \<lparr>sql_text = ''DELETE FROM '' @ tbl @ '' WHERE '' @ wher,
      sql_params = (case where_params of None \<Rightarrow> [] | Some ws \<Rightarrow> ws)\<rparr>"

text \<open>
  The listing queries of the services; \<^verbatim>\<open>if search:\<close> is false for \<^verbatim>\<open>None\<close> and for
  the empty string. The white space of the query literals is written as single spaces.
\<close>

definition search_given :: "string option \<Rightarrow> bool" where
  "search_given search = (case search of None \<Rightarrow> False | Some s \<Rightarrow> s \<noteq> [])"

definition search_param :: "string option \<Rightarrow> sqlval" where
  "search_param search = SStr (''%'' @ the search @ ''%'')"

definition get_users_statements ::
  "int \<Rightarrow> int \<Rightarrow> string option \<Rightarrow> statement_sent list" where
  "get_users_statements pg ps search =
     (let where_clause = ''WHERE 1=1'';
          params = [];
          (where_clause, params) =
            (if search_given search
             then (where_clause
                     @ '' AND (username LIKE %s OR email LIKE %s OR full_name LIKE %s)'',
                   params @ [search_param search, search_param search, search_param search])
             else (where_clause, params));
          users_query =
            ''SELECT id, username, email, full_name, role, status, is_active, ''
            @ ''created_at, updated_at FROM users '' @ where_clause
            @ '' ORDER BY created_at DESC''
      in fetch_paginated_statements users_query pg ps params)"

definition get_articles_statements ::
  "int \<Rightarrow> int \<Rightarrow> string option \<Rightarrow> statement_sent list" where
  "get_articles_statements pg ps search =
     (let where_clause = ''WHERE 1=1'';
          params = [];
          (where_clause, params) =
            (if search_given search
             then (where_clause @ '' AND (a.title LIKE %s OR a.content LIKE %s)'',
                   params @ [search_param search, search_param search])
             else (where_clause, params));
          articles_query =
            ''SELECT a.*, u.username as author_name FROM articles a ''
            @ ''LEFT JOIN users u ON a.author_id = u.id '' @ where_clause
            @ '' ORDER BY a.created_at DESC''
      in fetch_paginated_statements articles_query pg ps params)"

text \<open>
  The route \<^verbatim>\<open>GET /api/v1/articles\<close> takes the page, the page size and the search
  word from the query string of the request, refuses a page below 1 and a page size
  outside 1 to 100 (status 422), and passes them on to the service.
\<close>

definition api_get_articles ::
  "int \<Rightarrow> int \<Rightarrow> string option \<Rightarrow> error + statement_sent list" where
  "api_get_articles pg ps search =
     (if pg < 1 \<or> ps < 1 \<or> 100 < ps then Inl (HTTPException 422)
      else Inr (get_articles_statements pg ps search))"

section \<open>The handler instance and the connection pool (db/async\_mysql.py)\<close>

text \<open>
  \<^verbatim>\<open>__new__\<close> keeps one instance in the class: an outer check, and under the lock
  of the class the same check again, the creation of the instance and the registration
  of the exit hook. The lock makes the inner part one step. An object is known by its
  number.
\<close>

record handler_class =
  instance_of :: "nat option"
  cleanup_registered :: bool
  allocated :: nat

definition new :: "handler_class \<Rightarrow> nat \<times> handler_class" where
  "new cls =
     (let cls =
        (if instance_of cls = None
         then (if instance_of cls = None
               then (let cls = cls\<lparr>instance_of := Some (allocated cls),
                                      allocated := Suc (allocated cls)\<rparr>
                     in if \<not> cleanup_registered cls
                        then cls\<lparr>cleanup_registered := True\<rparr>
                        else cls)
               else cls)
         else cls)
      in (the (instance_of cls), cls))"

text \<open>
  The handler holds the pool, or \<^verbatim>\<open>None\<close>; \<open>pools_created\<close> counts the pools that the
  driver has opened so far, and numbers them. Whether \<^verbatim>\<open>create_pool\<close> succeeds
  depends on the server, which is the parameter \<open>ok\<close>; its failure is the error of
  the pool initialisation.
\<close>

record pool_state =
  pool :: "nat option"
  pools_created :: nat

definition create_pool :: "bool \<Rightarrow> pool_state \<Rightarrow> error + nat \<times> pool_state" where
  "create_pool ok s =
     (if ok then Inr (pools_created s, s\<lparr>pools_created := Suc (pools_created s)\<rparr>)
      else Inl PoolInitError)"

text \<open>
  \<^verbatim>\<open>_ensure_pool\<close>, run without interruption: the pool is created when it is
  \<^verbatim>\<open>None\<close>, and an exception of the creation is logged and raised again.
\<close>

definition ensure_pool :: "bool \<Rightarrow> pool_state \<Rightarrow> (error + unit) \<times> pool_state" where
  "ensure_pool ok s =
     (if pool s = None
      then (case create_pool ok s of
              Inl e \<Rightarrow> (Inl e, s)
            | Inr (p, s') \<Rightarrow> (Inr (), s'\<lparr>pool := Some p\<rparr>))
      else (Inr (), s))"

definition init_pool :: "bool \<Rightarrow> pool_state \<Rightarrow> (error + unit) \<times> pool_state" where
  "init_pool ok s = ensure_pool ok s"

text \<open>
  Calls one after the other, each with the outcome the server gives it.
\<close>

fun ensure_pool_calls :: "bool list \<Rightarrow> pool_state \<Rightarrow> pool_state" where
  "ensure_pool_calls [] s = s"
| "ensure_pool_calls (ok # oks) s = ensure_pool_calls oks (snd (ensure_pool ok s))"

text \<open>
  \<^verbatim>\<open>_ensure_pool\<close> is a coroutine: between the check of \<^verbatim>\<open>self.pool\<close> and the
  assignment it awaits \<^verbatim>\<open>create_pool\<close>, and the event loop may run other coroutines
  there. A call is at its entry, waits for the creation, or has returned; a step runs it
  to its next suspension.
\<close>

datatype ensure_pc = Entry | AwaitingCreate | Returned "error + unit"

fun ensure_step :: "bool \<Rightarrow> ensure_pc \<Rightarrow> pool_state \<Rightarrow> ensure_pc \<times> pool_state" where
  "ensure_step ok Entry s =
     (if pool s = None then (AwaitingCreate, s) else (Returned (Inr ()), s))"
| "ensure_step ok AwaitingCreate s =
     (case create_pool ok s of
        Inl e \<Rightarrow> (Returned (Inl e), s)
      | Inr (p, s') \<Rightarrow> (Returned (Inr ()), s'\<lparr>pool := Some p\<rparr>))"
| "ensure_step ok (Returned r) s = (Returned r, s)"

text \<open>
  The event loop runs the calls in some order: a schedule names, step by step, the call
  that runs and the outcome the server gives it.
\<close>

fun run_schedule ::
  "(nat \<times> bool) list \<Rightarrow> ensure_pc list \<times> pool_state \<Rightarrow> ensure_pc list \<times> pool_state" where
  "run_schedule [] cfg = cfg"
| "run_schedule ((i, ok) # rest) (pcs, s) =
     (if i < length pcs
      then (case ensure_step ok (pcs ! i) s of
              (pc', s') \<Rightarrow> run_schedule rest (pcs[i := pc'], s'))
      else run_schedule rest (pcs, s))"

section \<open>Properties of the role check\<close>

lemma getitem_Some: "map_of r k = Some v \<Longrightarrow> getitem r k = Inr v"
  by (simp add: getitem_def)

text \<open>
  Claim C9. For every required role, the role check passes a user whose role is the
  required one and a user whose role is \<^verbatim>\<open>admin\<close>, and fails with 403 (Forbidden)
  exactly when the role is neither; an admin passes every requirement.
\<close>

theorem role_checker_admin_or_required:
  assumes "map_of current_user ''role'' = Some v"
  shows "role_checker required_role current_user =
           (if v = SStr (role_value required_role) \<or> v = SStr ''admin''
            then Inr current_user else Inl (HTTPException 403))
       \<and> ((role_checker required_role current_user = Inl (HTTPException 403)) =
           (v \<noteq> SStr (role_value required_role) \<and> v \<noteq> SStr ''admin''))
       \<and> (map_of current_user ''status'' = Some (SStr ''active'') \<longrightarrow>
           require_role required_role current_user =
             role_checker required_role current_user)"
  using assms
  by (simp add: role_checker_def require_role_def get_current_active_user_def getitem_Some)

theorem role_checker_admin_or_required_witness:
  "role_checker MODERATOR [(''status'', SStr ''active''), (''role'', SStr ''admin'')]
     = Inr [(''status'', SStr ''active''), (''role'', SStr ''admin'')]
   \<and> require_role USER [(''status'', SStr ''active''), (''role'', SStr ''admin'')]
     = Inr [(''status'', SStr ''active''), (''role'', SStr ''admin'')]
   \<and> role_checker MODERATOR [(''status'', SStr ''active''), (''role'', SStr ''user'')]
     = Inl (HTTPException 403)"
  using role_checker_admin_or_required
          [of "[(''status'', SStr ''active''), (''role'', SStr ''admin'')]"
              "SStr ''admin''" MODERATOR]
        role_checker_admin_or_required
          [of "[(''status'', SStr ''active''), (''role'', SStr ''admin'')]"
              "SStr ''admin''" USER]
        role_checker_admin_or_required
          [of "[(''status'', SStr ''active''), (''role'', SStr ''user'')]"
              "SStr ''user''" MODERATOR]
  by simp

section \<open>Properties of pagination\<close>

lemma ceil_div_int:
  fixes t ps :: int
  assumes "0 < ps"
  shows "(t + ps - 1) div ps = \<lceil>real_of_int t / real_of_int ps\<rceil>"
proof -
  define q where "q = (t + ps - 1) div ps"
  have split: "t + ps - 1 = q * ps + (t + ps - 1) mod ps"
    by (simp add: q_def)
  have r0: "0 \<le> (t + ps - 1) mod ps" and r1: "(t + ps - 1) mod ps < ps"
    using assms by simp_all
  have lo: "(q - 1) * ps < t"
    using split r0 by (simp add: algebra_simps)
  have hi: "t \<le> q * ps"
    using split r1 by (simp add: algebra_simps)
  have "real_of_int ((q - 1) * ps) < real_of_int t"
    using lo by linarith
  then have lo': "real_of_int q - 1 < real_of_int t / real_of_int ps"
    using assms by (simp add: pos_less_divide_eq)
  have "real_of_int t \<le> real_of_int (q * ps)"
    using hi by linarith
  then have hi': "real_of_int t / real_of_int ps \<le> real_of_int q"
    using assms by (simp add: pos_divide_le_eq)
  have "\<lceil>real_of_int t / real_of_int ps\<rceil> = q"
    using lo' hi' by (rule ceiling_unique)
  then show ?thesis by (simp add: q_def)
qed

lemma fetch_paginated_ok:
  assumes "1 \<le> pg" and "1 \<le> ps"
  shows "fetch_paginated rows pg ps =
     Inr \<lparr>items = take (nat ps) (drop (nat ((pg - 1) * ps)) rows),
          total = int (length rows), page = pg, page_size = ps,
          total_pages = (int (length rows) + ps - 1) div ps\<rparr>"
proof -
  have "0 \<le> (pg - 1) * ps" using assms by simp
  then have "\<not> (pg - 1) * ps < 0" by simp
  then show ?thesis
    using assms
    by (simp add: fetch_paginated_def window_query_def window_offset_def count_query_def
        Let_def)
qed

lemma window_length:
  assumes "0 \<le> m" and "0 \<le> n"
  shows "int (length (take (nat n) (drop (nat m) (rows :: 'a list)))) =
           min n (max 0 (int (length rows) - m))"
  using assms by (simp add: min_def max_def) linarith

text \<open>
  Claim C1. For every page \<open>\<ge> 1\<close> and page size \<open>\<ge> 1\<close>, over a base query with
  \<open>T\<close> rows, \<^verbatim>\<open>fetch_paginated\<close> returns an envelope whose total is \<open>T\<close>, whose
  \<^verbatim>\<open>total_pages\<close> is \<open>\<lceil>T / page_size\<rceil>\<close>, whose window starts at offset
  \<open>(page - 1) * page_size\<close>, and whose items number
  \<open>min page_size (max 0 (T - (page - 1) * page_size))\<close>; a page beyond the range has no
  items and the same total.
\<close>

theorem fetch_paginated_envelope:
  assumes "1 \<le> pg" and "1 \<le> ps"
  shows "\<exists>env. fetch_paginated rows pg ps = Inr env
     \<and> total env = int (length rows) \<and> page env = pg \<and> page_size env = ps
     \<and> total_pages env = \<lceil>real (length rows) / real_of_int ps\<rceil>
     \<and> window_offset pg ps = (pg - 1) * ps
     \<and> items env = take (nat ps) (drop (nat (window_offset pg ps)) rows)
     \<and> int (length (items env)) = min ps (max 0 (int (length rows) - (pg - 1) * ps))
     \<and> (int (length rows) \<le> (pg - 1) * ps \<longrightarrow> items env = [])"
proof -
  have off: "0 \<le> (pg - 1) * ps" using assms by simp
  have ps: "0 \<le> ps" "0 < ps" using assms by simp_all
  have c: "(int (length rows) + ps - 1) div ps = \<lceil>real (length rows) / real_of_int ps\<rceil>"
    using ceil_div_int [OF ps(2), of "int (length rows)"] by simp
  show ?thesis
    unfolding fetch_paginated_ok [OF assms]
    using window_length [OF off ps(1), of rows] c
    by (simp add: window_offset_def)
qed

theorem fetch_paginated_envelope_witness:
  "\<exists>env. fetch_paginated [[(''id'', SInt 1)], [(''id'', SInt 2)], [(''id'', SInt 3)]] 2 2
            = Inr env
     \<and> total env = 3 \<and> total_pages env = 2 \<and> items env = [[(''id'', SInt 3)]]"
  using fetch_paginated_envelope
          [of 2 2 "[[(''id'', SInt 1)], [(''id'', SInt 2)], [(''id'', SInt 3)]]"]
  by (simp add: window_offset_def) blast

section \<open>Properties of transactions\<close>

lemma cursor_execute_committed:
  "committed (snd (cursor_execute stmt p c)) = committed c"
  by (simp add: cursor_execute_def split: sum.splits prod.splits)

lemma cursor_executemany_committed:
  "committed (snd (cursor_executemany stmt ps c)) = committed c"
proof (induction ps arbitrary: c)
  case Nil
  show ?case by simp
next
  case (Cons p ps)
  show ?case
  proof (cases "cursor_execute stmt p c")
    case (Pair r c')
    have c': "committed c' = committed c"
      using cursor_execute_committed [of stmt p c] Pair by simp
    show ?thesis
    proof (cases r)
      case (Inl e)
      with Pair c' show ?thesis by simp
    next
      case (Inr n)
      with Pair c' Cons.IH [of c'] show ?thesis
        by (simp split: prod.splits sum.splits) (metis snd_conv)
    qed
  qed
qed

lemma cursor_executemany_batch:
  "case run_batch stmt ps (working c) of
     Inl e \<Rightarrow> fst (cursor_executemany stmt ps c) = Inl e
   | Inr (n, w) \<Rightarrow> fst (cursor_executemany stmt ps c) = Inr n
                 \<and> working (snd (cursor_executemany stmt ps c)) = w"
proof (induction ps arbitrary: c)
  case Nil
  show ?case by simp
next
  case (Cons p ps)
  show ?case
  proof (cases "stmt p (working c)")
    case (Inl e)
    then show ?thesis by (simp add: cursor_execute_def)
  next
    case (Inr nw)
    obtain n w where nw: "nw = (n, w)" by (cases nw)
    have ce: "cursor_execute stmt p c = (Inr n, c\<lparr>working := w\<rparr>)"
      using Inr nw by (simp add: cursor_execute_def)
    show ?thesis
      using Cons.IH [of "c\<lparr>working := w\<rparr>"] Inr nw ce
      by (auto split: sum.splits prod.splits)
  qed
qed

lemma execute_many_transactional:
  "execute_many stmt params_list True db =
     (case run_batch stmt params_list db of
        Inl e \<Rightarrow> (Inl e, db)
      | Inr (n, db') \<Rightarrow> (Inr n, db'))"
proof -
  obtain r c where rc: "cursor_executemany stmt params_list (acquire db) = (r, c)"
    by (cases "cursor_executemany stmt params_list (acquire db)")
  have com: "committed c = db"
    using cursor_executemany_committed [of stmt params_list "acquire db"] unfolding rc
    by (simp add: acquire_def)
  have b: "case run_batch stmt params_list db of
             Inl e \<Rightarrow> r = Inl e
           | Inr (n, w) \<Rightarrow> r = Inr n \<and> working c = w"
    using cursor_executemany_batch [of stmt params_list "acquire db"] unfolding rc
    by (auto simp: acquire_def split: sum.splits prod.splits)
  show ?thesis
  proof (cases "run_batch stmt params_list db")
    case (Inl e)
    with b rc com show ?thesis
      by (simp add: execute_many_def transaction_def get_connection_def begin_txn_def
          rollback_def release_def)
  next
    case (Inr nw)
    with b rc com show ?thesis
      by (cases nw)
         (simp add: execute_many_def transaction_def get_connection_def begin_txn_def
          commit_def release_def)
  qed
qed

text \<open>
  Claim C2. \<^verbatim>\<open>execute_many\<close> with \<^verbatim>\<open>use_transaction\<close> true is all-or-nothing, for
  every statement and every list of parameter sets: when an execution of the batch fails,
  the error reaches the caller and the committed database is the one before the call;
  when all succeed, the committed database is the one after the whole batch.
\<close>

theorem execute_many_all_or_nothing:
  "(run_batch stmt params_list db = Inl e \<longrightarrow>
      execute_many stmt params_list True db = (Inl e, db))
   \<and> (run_batch stmt params_list db = Inr (n, db') \<longrightarrow>
      execute_many stmt params_list True db = (Inr n, db'))"
  by (simp add: execute_many_transactional)

theorem execute_many_all_or_nothing_witness:
  "execute_many insert_unique
     [[(''id'', SInt 2)], [(''id'', SInt 3)], [(''id'', SInt 1)]] True [[(''id'', SInt 1)]]
     = (Inl (QueryError ''duplicate''), [[(''id'', SInt 1)]])
   \<and> execute_many insert_unique
     [[(''id'', SInt 2)], [(''id'', SInt 3)]] True [[(''id'', SInt 1)]]
     = (Inr 2, [[(''id'', SInt 1)], [(''id'', SInt 2)], [(''id'', SInt 3)]])"
  using execute_many_all_or_nothing
          [of insert_unique "[[(''id'', SInt 2)], [(''id'', SInt 3)], [(''id'', SInt 1)]]"
              "[[(''id'', SInt 1)]]" "QueryError ''duplicate''"]
        execute_many_all_or_nothing
          [of insert_unique "[[(''id'', SInt 2)], [(''id'', SInt 3)]]"
              "[[(''id'', SInt 1)]]" _ 2
              "[[(''id'', SInt 1)], [(''id'', SInt 2)], [(''id'', SInt 3)]]"]
  by (simp add: insert_unique_def)

section \<open>Properties of access tokens\<close>












section \<open>Properties of the user service\<close>






lemma authenticate_user_events:
  "set (snd (authenticate_user verify here users uname password))
     \<subseteq> {DbQuery, PasswordVerify here}"
  by (auto simp: authenticate_user_def verify_password_def Let_def
           split: sum.splits if_splits)

lemma create_user_events:
  "snd (snd (create_user hash here now users user_data)) =
     (if row_truthy (fetch_one (username_or_email (uc_username user_data)
                                  (uc_email user_data)) users)
      then [DbQuery]
      else [DbQuery, PasswordHash here, DbQuery, DbQuery])"
  by (simp add: create_user_def get_password_hash_def db_insert_def Let_def)

lemma authenticate_user_verifies:
  assumes "fetch_one (active_with_username uname) users = Some r"
    and "map_of r ''password_hash'' = Some (SStr h)"
  shows "snd (authenticate_user verify here users uname password)
           = [DbQuery, PasswordVerify here]"
proof -
  from assms(2) have "r \<noteq> []" by auto
  with assms show ?thesis
    by (simp add: authenticate_user_def row_truthy_def getitem_def verify_password_def
          split: sum.splits)
qed

text \<open>
  Claim C8, as the code has it. Password hashing and verification in
  \<^verbatim>\<open>create_user\<close> and \<^verbatim>\<open>authenticate_user\<close> run on the site of the caller, which is
  the event loop while a request is served: every event of the two functions is a
  database query or a hashing step on that site, the verification happens there whenever
  an active row with a hash is found, and the hashing whenever the user is new. Only a
  function handed to \<^verbatim>\<open>run_in_thread\<close> runs on a worker thread, and neither function
  hands its hashing to it.
\<close>

theorem hashing_runs_on_calling_site:
  "set (snd (authenticate_user verify here users uname password))
     \<subseteq> {DbQuery, PasswordVerify here}
   \<and> set (snd (snd (create_user hash here now users user_data)))
     \<subseteq> {DbQuery, PasswordHash here}
   \<and> (\<forall>r h. fetch_one (active_with_username uname) users = Some r
             \<and> map_of r ''password_hash'' = Some (SStr h) \<longrightarrow>
        snd (authenticate_user verify here users uname password)
          = [DbQuery, PasswordVerify here])
   \<and> (\<not> row_truthy (fetch_one (username_or_email (uc_username user_data)
                                   (uc_email user_data)) users) \<longrightarrow>
        snd (snd (create_user hash here now users user_data))
          = [DbQuery, PasswordHash here, DbQuery, DbQuery])
   \<and> snd (run_in_thread (\<lambda>s. verify_password verify s password hv))
        = [PasswordVerify WorkerThread]
   \<and> snd (run_in_thread (\<lambda>s. get_password_hash hash s password))
        = [PasswordHash WorkerThread]"
  apply (intro conjI allI impI)
  subgoal by (rule authenticate_user_events)
  subgoal by (simp add: create_user_events)
  subgoal by (simp add: authenticate_user_verifies)
  subgoal by (simp add: create_user_events)
  subgoal by (simp add: run_in_thread_def verify_password_def)
  subgoal by (simp add: run_in_thread_def get_password_hash_def)
  done

theorem hashing_runs_on_calling_site_witness:
  "snd (authenticate_user (\<lambda>p h. Inr (h = ''$2b$'' @ p)) EventLoop
          [[(''id'', SInt 1), (''username'', SStr ''bob''),
            (''password_hash'', SStr ''$2b$secret123''), (''is_active'', SInt 1)]]
          ''bob'' ''secret123'')
     = [DbQuery, PasswordVerify EventLoop]
   \<and> snd (snd (create_user (\<lambda>p. p) EventLoop 7 []
          \<lparr>uc_username = ''bob'', uc_email = ''b@x.org'', uc_full_name = None,
            uc_role = USER, uc_status = ACTIVE, uc_password = ''secret123''\<rparr>))
     = [DbQuery, PasswordHash EventLoop, DbQuery, DbQuery]"
  using hashing_runs_on_calling_site
          [where verify = "\<lambda>p h. Inr (h = ''$2b$'' @ p)" and here = EventLoop
             and users = "[[(''id'', SInt 1), (''username'', SStr ''bob''),
                 (''password_hash'', SStr ''$2b$secret123''), (''is_active'', SInt 1)]]"
             and uname = "''bob''" and password = "''secret123''"]
        hashing_runs_on_calling_site
          [where hash = "\<lambda>p. p" and here = EventLoop and now = 7 and users = "[]"
             and user_data = "\<lparr>uc_username = ''bob'', uc_email = ''b@x.org'',
                 uc_full_name = None, uc_role = USER, uc_status = ACTIVE,
                 uc_password = ''secret123''\<rparr>"]
  by (simp add: fetch_one_def active_with_username_def row_truthy_def)

text \<open>
  The claim as stated, that every hashing step of a request is offloaded to a worker
  thread, fails for a login served on the event loop.
\<close>

theorem hashing_offloaded_counterexample:
  "\<not> list_all offloaded
       (snd (authenticate_user (\<lambda>p h. Inr (h = ''$2b$'' @ p)) EventLoop
               [[(''id'', SInt 1), (''username'', SStr ''bob''),
                 (''password_hash'', SStr ''$2b$secret123''), (''is_active'', SInt 1)]]
               ''bob'' ''secret123''))"
  by (simp add: authenticate_user_def fetch_one_def active_with_username_def row_truthy_def
      getitem_def verify_password_def pwd_context_verify_def identify_def bcrypt_idents_def
      offloaded_def)

section \<open>Properties of partial updates\<close>

lemma execute_plain:
  "execute stmt p False db =
     (case stmt p db of Inl e \<Rightarrow> (Inl e, db) | Inr (n, db') \<Rightarrow> (Inr n, db'))"
  by (simp add: execute_def get_connection_def cursor_execute_def acquire_def commit_def
      rollback_def release_def split: sum.splits prod.splits)

lemma db_update_effect:
  "db_update data ident tbl =
     (Inr (length (filter (has_id ident) tbl)),
      map (\<lambda>r. if has_id ident r then set_columns data r else r) tbl)"
  by (simp add: db_update_def execute_plain update_where_id_def)

lemma map_of_set_columns:
  "distinct (map fst data) \<Longrightarrow>
     map_of (set_columns data r) k =
       (case map_of data k of Some v \<Rightarrow> Some v | None \<Rightarrow> map_of r k)"
proof (induction data arbitrary: r)
  case Nil
  show ?case by (simp add: set_columns_def)
next
  case (Cons a data)
  obtain c v where a: "a = (c, v)" by (cases a)
  from Cons.prems a have d: "distinct (map fst data)" and c: "c \<notin> fst ` set data"
    by auto
  from c have none: "map_of data c = None" by (simp add: map_of_eq_None_iff)
  have "map_of (set_columns (a # data) r) k = map_of (set_columns data (AList.update c v r)) k"
    by (simp add: set_columns_def a)
  also have "\<dots> = (case map_of data k of Some w \<Rightarrow> Some w
                     | None \<Rightarrow> map_of (AList.update c v r) k)"
    by (rule Cons.IH [OF d])
  finally show ?case
    using none by (auto simp: a update_conv' split: option.splits)
qed

lemma map_of_add_field:
  "map_of (add_field c x fs) k =
     (if k = c then (case x of Some v \<Rightarrow> Some v | None \<Rightarrow> map_of fs k) else map_of fs k)"
  by (simp add: add_field_def update_conv' split: option.splits)

lemma distinct_add_field:
  "distinct (map fst fs) \<Longrightarrow> distinct (map fst (add_field c x fs))"
  by (simp add: add_field_def distinct_update split: option.splits)

lemma add_field_Nil_iff: "(add_field c x fs = []) = (x = None \<and> fs = [])"
  by (cases x) (simp_all add: add_field_def)

lemma user_update_fields_distinct: "distinct (map fst (user_update_fields ud))"
  by (simp add: user_update_fields_def distinct_add_field)

lemma article_update_fields_distinct: "distinct (map fst (article_update_fields dumps ad))"
  by (simp add: article_update_fields_def distinct_add_field)

lemma user_update_fields_empty:
  "(user_update_fields ud = []) =
     (uu_username ud = None \<and> uu_email ud = None \<and> uu_full_name ud = None
      \<and> uu_role ud = None \<and> uu_status ud = None)"
  by (auto simp: user_update_fields_def add_field_Nil_iff)

lemma article_update_fields_empty:
  "(article_update_fields dumps ad = []) =
     (au_title ad = None \<and> au_content ad = None \<and> au_summary ad = None
      \<and> au_tags ad = None \<and> au_is_published ad = None)"
  by (auto simp: article_update_fields_def add_field_Nil_iff)

lemma user_row_after:
  "map_of (set_columns (AList.update ''updated_at'' (STime now) (user_update_fields ud)) r) k =
     (if k = ''updated_at'' then Some (STime now)
      else if k = ''username''
        then (case uu_username ud of Some v \<Rightarrow> Some (SStr v) | None \<Rightarrow> map_of r k)
      else if k = ''email''
        then (case uu_email ud of Some v \<Rightarrow> Some (SStr v) | None \<Rightarrow> map_of r k)
      else if k = ''full_name''
        then (case uu_full_name ud of Some v \<Rightarrow> Some (SStr v) | None \<Rightarrow> map_of r k)
      else if k = ''role''
        then (case uu_role ud of Some v \<Rightarrow> Some (SStr (role_value v)) | None \<Rightarrow> map_of r k)
      else if k = ''status''
        then (case uu_status ud of Some v \<Rightarrow> Some (SStr (status_value v))
              | None \<Rightarrow> map_of r k)
      else map_of r k)"
proof -
  have d: "distinct (map fst (AList.update ''updated_at'' (STime now) (user_update_fields ud)))"
    by (simp add: distinct_update user_update_fields_distinct)
  show ?thesis
    unfolding map_of_set_columns [OF d] update_conv'
    by (simp add: user_update_fields_def map_of_add_field split: option.splits)
qed

lemma article_row_after:
  "map_of (set_columns (AList.update ''updated_at'' (STime now)
                          (article_update_fields dumps ad)) r) k =
     (if k = ''updated_at'' then Some (STime now)
      else if k = ''title''
        then (case au_title ad of Some v \<Rightarrow> Some (SStr v) | None \<Rightarrow> map_of r k)
      else if k = ''content''
        then (case au_content ad of Some v \<Rightarrow> Some (SStr v) | None \<Rightarrow> map_of r k)
      else if k = ''summary''
        then (case au_summary ad of Some v \<Rightarrow> Some (SStr v) | None \<Rightarrow> map_of r k)
      else if k = ''tags''
        then (case au_tags ad of Some v \<Rightarrow> Some (SStr (dumps v)) | None \<Rightarrow> map_of r k)
      else if k = ''is_published''
        then (case au_is_published ad of Some b \<Rightarrow> Some (SInt (if b then 1 else 0))
              | None \<Rightarrow> map_of r k)
      else map_of r k)"
proof -
  have d: "distinct (map fst (AList.update ''updated_at'' (STime now)
                                (article_update_fields dumps ad)))"
    by (simp add: distinct_update article_update_fields_distinct)
  show ?thesis
    unfolding map_of_set_columns [OF d] update_conv'
    by (simp add: article_update_fields_def map_of_add_field split: option.splits)
qed

lemma update_user_effect:
  "update_user now users uid ud =
     (if user_update_fields ud = [] then (Inl (HTTPException 400), users)
      else
        (let users' = map (\<lambda>r. if has_id uid r
                     then set_columns (AList.update ''updated_at'' (STime now)
                                         (user_update_fields ud)) r
                     else r) users
         in (Inr (get_user_by_id users' uid), users')))"
  by (simp add: update_user_def db_update_effect Let_def)

lemma update_article_effect:
  assumes "fetch_one (has_id aid) articles = Some a" and "a \<noteq> []"
    and "may_edit a (fetch_one (has_id uid) users) uid = Inr ()"
  shows "update_article now dumps loads articles users aid ad uid =
     (if article_update_fields dumps ad = [] then (Inl (HTTPException 400), articles)
      else
        (let articles' = map (\<lambda>r. if has_id aid r
                     then set_columns (AList.update ''updated_at'' (STime now)
                                         (article_update_fields dumps ad)) r
                     else r) articles
         in (get_article_by_id loads articles' users aid, articles')))"
  using assms
  by (simp add: update_article_def db_update_effect Let_def row_truthy_def)


text \<open>
  Claim C7, as the code has it. A partial update of a user or of an article changes, in
  the rows with the identifier, the columns whose fields are set in the update object
  and the column \<^verbatim>\<open>updated_at\<close>, which takes the current time; every other column of
  these rows and every other row keep their values. An update object with no field set
  is refused with status 400 and the table stays as it was; for an article this holds
  once the article exists and the user may edit it.
\<close>

theorem partial_update_frame:
  "((user_update_fields ud = []) =
      (uu_username ud = None \<and> uu_email ud = None \<and> uu_full_name ud = None
       \<and> uu_role ud = None \<and> uu_status ud = None))
   \<and> (user_update_fields ud = [] \<longrightarrow>
        update_user now users uid ud = (Inl (HTTPException 400), users))
   \<and> (user_update_fields ud \<noteq> [] \<longrightarrow>
        (\<exists>res. fst (update_user now users uid ud) = Inr res)
        \<and> snd (update_user now users uid ud) =
            map (\<lambda>r. if has_id uid r
                      then set_columns (AList.update ''updated_at'' (STime now)
                                          (user_update_fields ud)) r
                      else r) users)
   \<and> (\<forall>r k. map_of (set_columns (AList.update ''updated_at'' (STime now)
                                     (user_update_fields ud)) r) k =
        (if k = ''updated_at'' then Some (STime now)
         else if k = ''username''
           then (case uu_username ud of Some v \<Rightarrow> Some (SStr v) | None \<Rightarrow> map_of r k)
         else if k = ''email''
           then (case uu_email ud of Some v \<Rightarrow> Some (SStr v) | None \<Rightarrow> map_of r k)
         else if k = ''full_name''
           then (case uu_full_name ud of Some v \<Rightarrow> Some (SStr v) | None \<Rightarrow> map_of r k)
         else if k = ''role''
           then (case uu_role ud of Some v \<Rightarrow> Some (SStr (role_value v))
                 | None \<Rightarrow> map_of r k)
         else if k = ''status''
           then (case uu_status ud of Some v \<Rightarrow> Some (SStr (status_value v))
                 | None \<Rightarrow> map_of r k)
         else map_of r k))
   \<and> ((article_update_fields dumps ad = []) =
      (au_title ad = None \<and> au_content ad = None \<and> au_summary ad = None
       \<and> au_tags ad = None \<and> au_is_published ad = None))
   \<and> (\<forall>a. fetch_one (has_id aid) articles = Some a \<and> a \<noteq> []
           \<and> may_edit a (fetch_one (has_id uid) users) uid = Inr () \<longrightarrow>
        (article_update_fields dumps ad = [] \<longrightarrow>
           update_article now dumps loads articles users aid ad uid
             = (Inl (HTTPException 400), articles))
        \<and> (article_update_fields dumps ad \<noteq> [] \<longrightarrow>
           snd (update_article now dumps loads articles users aid ad uid) =
             map (\<lambda>r. if has_id aid r
                       then set_columns (AList.update ''updated_at'' (STime now)
                                           (article_update_fields dumps ad)) r
                       else r) articles))
   \<and> (\<forall>r k. map_of (set_columns (AList.update ''updated_at'' (STime now)
                                     (article_update_fields dumps ad)) r) k =
        (if k = ''updated_at'' then Some (STime now)
         else if k = ''title''
           then (case au_title ad of Some v \<Rightarrow> Some (SStr v) | None \<Rightarrow> map_of r k)
         else if k = ''content''
           then (case au_content ad of Some v \<Rightarrow> Some (SStr v) | None \<Rightarrow> map_of r k)
         else if k = ''summary''
           then (case au_summary ad of Some v \<Rightarrow> Some (SStr v) | None \<Rightarrow> map_of r k)
         else if k = ''tags''
           then (case au_tags ad of Some v \<Rightarrow> Some (SStr (dumps v)) | None \<Rightarrow> map_of r k)
         else if k = ''is_published''
           then (case au_is_published ad of Some b \<Rightarrow> Some (SInt (if b then 1 else 0))
                 | None \<Rightarrow> map_of r k)
         else map_of r k))"
proof (intro conjI allI impI)
  show "(user_update_fields ud = []) =
      (uu_username ud = None \<and> uu_email ud = None \<and> uu_full_name ud = None
       \<and> uu_role ud = None \<and> uu_status ud = None)"
    by (rule user_update_fields_empty)
  show "(article_update_fields dumps ad = []) =
      (au_title ad = None \<and> au_content ad = None \<and> au_summary ad = None
       \<and> au_tags ad = None \<and> au_is_published ad = None)"
    by (rule article_update_fields_empty)
qed (simp_all add: update_user_effect update_article_effect user_row_after article_row_after
       Let_def)

theorem partial_update_frame_witness:
  "update_user 5
     [[(''id'', SInt 1), (''username'', SStr ''bob''), (''email'', SStr ''b@x.org''),
       (''updated_at'', SNull)],
      [(''id'', SInt 2), (''username'', SStr ''eve''), (''email'', SStr ''e@x.org''),
       (''updated_at'', SNull)]]
     1
     \<lparr>uu_username = None, uu_email = None, uu_full_name = None, uu_role = None,
       uu_status = None\<rparr>
   = (Inl (HTTPException 400),
     [[(''id'', SInt 1), (''username'', SStr ''bob''), (''email'', SStr ''b@x.org''),
       (''updated_at'', SNull)],
      [(''id'', SInt 2), (''username'', SStr ''eve''), (''email'', SStr ''e@x.org''),
       (''updated_at'', SNull)]])
   \<and> snd (update_user 5
     [[(''id'', SInt 1), (''username'', SStr ''bob''), (''email'', SStr ''b@x.org''),
       (''updated_at'', SNull)],
      [(''id'', SInt 2), (''username'', SStr ''eve''), (''email'', SStr ''e@x.org''),
       (''updated_at'', SNull)]]
     1
     \<lparr>uu_username = None, uu_email = Some ''bob@y.org'', uu_full_name = None,
       uu_role = None, uu_status = None\<rparr>)
   = [[(''id'', SInt 1), (''username'', SStr ''bob''), (''email'', SStr ''bob@y.org''),
       (''updated_at'', STime 5)],
      [(''id'', SInt 2), (''username'', SStr ''eve''), (''email'', SStr ''e@x.org''),
       (''updated_at'', SNull)]]
   \<and> update_article 5 concat (\<lambda>s. [s])
     [[(''id'', SInt 7), (''author_id'', SInt 1), (''title'', SStr ''old''),
       (''tags'', SStr ''a''), (''updated_at'', SNull)],
      [(''id'', SInt 8), (''author_id'', SInt 1), (''title'', SStr ''other''),
       (''tags'', SStr ''b''), (''updated_at'', SNull)]]
     []
     7
     \<lparr>au_title = None, au_content = None, au_summary = None, au_tags = None,
       au_is_published = None\<rparr>
     1
   = (Inl (HTTPException 400),
     [[(''id'', SInt 7), (''author_id'', SInt 1), (''title'', SStr ''old''),
       (''tags'', SStr ''a''), (''updated_at'', SNull)],
      [(''id'', SInt 8), (''author_id'', SInt 1), (''title'', SStr ''other''),
       (''tags'', SStr ''b''), (''updated_at'', SNull)]])
   \<and> snd (update_article 5 concat (\<lambda>s. [s])
     [[(''id'', SInt 7), (''author_id'', SInt 1), (''title'', SStr ''old''),
       (''tags'', SStr ''a''), (''updated_at'', SNull)],
      [(''id'', SInt 8), (''author_id'', SInt 1), (''title'', SStr ''other''),
       (''tags'', SStr ''b''), (''updated_at'', SNull)]]
     []
     7
     \<lparr>au_title = Some ''new'', au_content = None, au_summary = None, au_tags = None,
       au_is_published = None\<rparr>
     1)
   = [[(''id'', SInt 7), (''author_id'', SInt 1), (''title'', SStr ''new''),
       (''tags'', SStr ''a''), (''updated_at'', STime 5)],
      [(''id'', SInt 8), (''author_id'', SInt 1), (''title'', SStr ''other''),
       (''tags'', SStr ''b''), (''updated_at'', SNull)]]"
proof -
  let ?users = "[[(''id'', SInt 1), (''username'', SStr ''bob''),
                  (''email'', SStr ''b@x.org''), (''updated_at'', SNull)],
                 [(''id'', SInt 2), (''username'', SStr ''eve''),
                  (''email'', SStr ''e@x.org''), (''updated_at'', SNull)]]"
  let ?article = "[(''id'', SInt 7), (''author_id'', SInt 1), (''title'', SStr ''old''),
                   (''tags'', SStr ''a''), (''updated_at'', SNull)]"
  let ?articles = "[?article,
                    [(''id'', SInt 8), (''author_id'', SInt 1), (''title'', SStr ''other''),
                     (''tags'', SStr ''b''), (''updated_at'', SNull)]]"
  let ?none = "\<lparr>au_title = None, au_content = None, au_summary = None, au_tags = None,
                 au_is_published = None\<rparr>"
  let ?title = "\<lparr>au_title = Some ''new'', au_content = None, au_summary = None,
                  au_tags = None, au_is_published = None\<rparr>"
  have found: "fetch_one (has_id 7) ?articles = Some ?article"
    by (simp add: fetch_one_def has_id_def)
  have author: "may_edit ?article (fetch_one (has_id 1) []) 1 = Inr ()"
    by (simp add: may_edit_def getitem_def)
  have refused: "update_article 5 concat (\<lambda>s. [s]) ?articles [] 7 ?none 1
      = (Inl (HTTPException 400), ?articles)"
    using partial_update_frame
            [where ad = ?none and dumps = concat and loads = "\<lambda>s. [s]" and now = 5
               and aid = 7 and uid = 1 and articles = ?articles and users = "[]"]
          found author
    by simp
  have "article_update_fields concat ?title \<noteq> []"
    by (simp add: article_update_fields_def add_field_def)
  then have "snd (update_article 5 concat (\<lambda>s. [s]) ?articles [] 7 ?title 1) =
      map (\<lambda>r. if has_id 7 r
                then set_columns (AList.update ''updated_at'' (STime 5)
                                    (article_update_fields concat ?title)) r
                else r) ?articles"
    using partial_update_frame
            [where ad = ?title and dumps = concat and loads = "\<lambda>s. [s]" and now = 5
               and aid = 7 and uid = 1 and articles = ?articles and users = "[]"]
          found author
    by simp
  then have changed: "snd (update_article 5 concat (\<lambda>s. [s]) ?articles [] 7 ?title 1) =
      [[(''id'', SInt 7), (''author_id'', SInt 1), (''title'', SStr ''new''),
        (''tags'', SStr ''a''), (''updated_at'', STime 5)],
       [(''id'', SInt 8), (''author_id'', SInt 1), (''title'', SStr ''other''),
        (''tags'', SStr ''b''), (''updated_at'', SNull)]]"
    by (simp add: article_update_fields_def add_field_def has_id_def set_columns_def)
  have users: "update_user 5 ?users 1
        \<lparr>uu_username = None, uu_email = None, uu_full_name = None, uu_role = None,
          uu_status = None\<rparr> = (Inl (HTTPException 400), ?users)
      \<and> snd (update_user 5 ?users 1
        \<lparr>uu_username = None, uu_email = Some ''bob@y.org'', uu_full_name = None,
          uu_role = None, uu_status = None\<rparr>)
        = [[(''id'', SInt 1), (''username'', SStr ''bob''), (''email'', SStr ''bob@y.org''),
            (''updated_at'', STime 5)],
           [(''id'', SInt 2), (''username'', SStr ''eve''), (''email'', SStr ''e@x.org''),
            (''updated_at'', SNull)]]"
    using partial_update_frame
            [where ud = "\<lparr>uu_username = None, uu_email = None, uu_full_name = None,
                            uu_role = None, uu_status = None\<rparr>"
               and now = 5 and uid = 1 and users = ?users]
          partial_update_frame
            [where ud = "\<lparr>uu_username = None, uu_email = Some ''bob@y.org'',
                            uu_full_name = None, uu_role = None, uu_status = None\<rparr>"
               and now = 5 and uid = 1 and users = ?users]
    by (simp add: user_update_fields_def add_field_def has_id_def set_columns_def)
  from users refused changed show ?thesis
    by simp
qed

text \<open>
  The claim as stated, that every column outside the payload keeps its value, fails for
  \<^verbatim>\<open>updated_at\<close>: an update of the e-mail address alone changes it.
\<close>

theorem partial_update_counterexample:
  "map_of (hd (snd (update_user 5
       [[(''id'', SInt 1), (''username'', SStr ''bob''), (''email'', SStr ''b@x.org''),
         (''updated_at'', SNull)]]
       1
       \<lparr>uu_username = None, uu_email = Some ''bob@y.org'', uu_full_name = None,
         uu_role = None, uu_status = None\<rparr>))) ''updated_at''
   \<noteq> map_of [(''id'', SInt 1), (''username'', SStr ''bob''), (''email'', SStr ''b@x.org''),
         (''updated_at'', SNull)] ''updated_at''"
  by (simp add: update_user_effect user_update_fields_def add_field_def has_id_def
      set_columns_def Let_def)

text \<open>
  A request body without \<^verbatim>\<open>tags\<close> still sets the tags of the article, since the
  default of the field is the empty list and not \<^verbatim>\<open>None\<close>.
\<close>

lemma article_body_without_tags:
  "article_update_fields dumps (ArticleUpdate_of_body Omitted Omitted Omitted Omitted Omitted)
     = [(''tags'', SStr (dumps []))]"
  by (simp add: ArticleUpdate_of_body_def article_update_fields_def add_field_def)

section \<open>Properties of the statements that are sent\<close>

lemma digit_is_digit: "n < 10 \<Longrightarrow> digit n \<in> set ''0123456789''"
  unfolding digit_def by (rule nth_mem) simp

lemma str_nat_digits: "set (str_nat n) \<subseteq> set ''0123456789''"
proof (induction n rule: str_nat.induct)
  case (1 n)
  show ?case
  proof (cases "n < 10")
    case True
    then show ?thesis using digit_is_digit [of n] by (subst str_nat.simps) simp
  next
    case False
    have "n mod 10 < 10" by simp
    then have "digit (n mod 10) \<in> set ''0123456789''" by (rule digit_is_digit)
    with False "1.IH" show ?thesis by (subst str_nat.simps) simp
  qed
qed

lemma str_int_digits: "0 \<le> i \<Longrightarrow> set (str_int i) \<subseteq> set ''0123456789''"
  using str_nat_digits by (simp add: str_int_def)


lemma join_cong_keys_insert:
  "map fst d = map fst d' \<Longrightarrow>
     sql_text (insert_statement t d) = sql_text (insert_statement t d')"
  by (simp add: insert_statement_def Let_def) (metis length_map)

lemma join_cong_keys_update:
  "map fst d = map fst d' \<Longrightarrow>
     sql_text (update_statement t d w ps) = sql_text (update_statement t d' w ps')"
  by (simp add: update_statement_def Let_def)

lemma add_field_keys:
  "fst ` set fs \<subseteq> K \<Longrightarrow> c \<in> K \<Longrightarrow> fst ` set (add_field c x fs) \<subseteq> K"
  by (cases x) (simp_all add: add_field_def dom_update)

lemma user_update_fields_keys:
  "fst ` set (user_update_fields ud)
     \<subseteq> {''username'', ''email'', ''full_name'', ''role'', ''status''}"
  unfolding user_update_fields_def Let_def
  by (intro add_field_keys) simp_all

lemma article_update_fields_keys:
  "fst ` set (article_update_fields dumps ad)
     \<subseteq> {''title'', ''content'', ''summary'', ''tags'', ''is_published''}"
  unfolding article_update_fields_def Let_def
  by (intro add_field_keys) simp_all

text \<open>
  Claim C6, as the code has it. The values of an insert and of an update reach the
  database only as bound parameters: the parameters are the values of the data (followed
  by those of the condition), and the text depends on the table name, the field names
  and the text of the condition alone. \<^verbatim>\<open>fetch_paginated\<close> passes the parameters of
  the caller on unchanged and formats two integers into the text, the page size and the
  offset; they derive from the page and page size of the request and consist of decimal
  digits for a page and page size of at least 1. A search word of the request reaches
  the listing queries as a bound parameter only, and the field names of a user update
  and of an article update are fixed names whatever the payload holds.
\<close>

theorem statements_bind_values:
  "sql_params (insert_statement t d) = map snd d
   \<and> (map fst d = map fst d' \<longrightarrow>
        sql_text (insert_statement t d) = sql_text (insert_statement t d'))
   \<and> sql_params (update_statement t d w (Some ws)) = map snd d @ ws
   \<and> (map fst d = map fst d' \<longrightarrow>
        sql_text (update_statement t d w (Some ws))
          = sql_text (update_statement t d' w (Some ws')))
   \<and> map sql_params (fetch_paginated_statements sql pg ps params) = [params, params]
   \<and> map sql_text (fetch_paginated_statements sql pg ps params) =
        [''SELECT COUNT(*) as total FROM ('' @ sql @ '') as count_table'',
         sql @ '' LIMIT '' @ str_int ps @ '' OFFSET '' @ str_int ((pg - 1) * ps)]
   \<and> (1 \<le> pg \<and> 1 \<le> ps \<longrightarrow>
        set (str_int ps) \<subseteq> set ''0123456789''
        \<and> set (str_int ((pg - 1) * ps)) \<subseteq> set ''0123456789'')
   \<and> (s \<noteq> [] \<and> s' \<noteq> [] \<longrightarrow>
        map sql_text (get_users_statements pg ps (Some s))
          = map sql_text (get_users_statements pg ps (Some s'))
        \<and> map sql_text (get_articles_statements pg ps (Some s))
          = map sql_text (get_articles_statements pg ps (Some s'))
        \<and> map sql_params (get_articles_statements pg ps (Some s))
          = [[SStr (''%'' @ s @ ''%''), SStr (''%'' @ s @ ''%'')],
             [SStr (''%'' @ s @ ''%''), SStr (''%'' @ s @ ''%'')]])
   \<and> fst ` set (user_update_fields ud)
        \<subseteq> {''username'', ''email'', ''full_name'', ''role'', ''status''}
   \<and> fst ` set (article_update_fields dumps ad)
        \<subseteq> {''title'', ''content'', ''summary'', ''tags'', ''is_published''}"
proof (intro conjI impI)
  show "map fst d = map fst d' \<Longrightarrow>
        sql_text (insert_statement t d) = sql_text (insert_statement t d')"
    by (rule join_cong_keys_insert)
  show "map fst d = map fst d' \<Longrightarrow>
        sql_text (update_statement t d w (Some ws))
          = sql_text (update_statement t d' w (Some ws'))"
    by (rule join_cong_keys_update)
  show "fst ` set (user_update_fields ud)
        \<subseteq> {''username'', ''email'', ''full_name'', ''role'', ''status''}"
    by (rule user_update_fields_keys)
  show "fst ` set (article_update_fields dumps ad)
        \<subseteq> {''title'', ''content'', ''summary'', ''tags'', ''is_published''}"
    by (rule article_update_fields_keys)
  show "1 \<le> pg \<and> 1 \<le> ps \<Longrightarrow> set (str_int ps) \<subseteq> set ''0123456789''"
    by (rule str_int_digits) simp
  show "1 \<le> pg \<and> 1 \<le> ps \<Longrightarrow> set (str_int ((pg - 1) * ps)) \<subseteq> set ''0123456789''"
    by (rule str_int_digits) simp
qed (simp_all add: insert_statement_def update_statement_def fetch_paginated_statements_def
       paginated_sql_def count_sql_def window_offset_def get_users_statements_def
       get_articles_statements_def search_given_def search_param_def Let_def)

theorem statements_bind_values_witness:
  "sql_text (insert_statement ''users''
               [(''username'', SStr ''bob''), (''role'', SStr ''user'')])
     = sql_text (insert_statement ''users''
               [(''username'', SStr ''x'); DROP TABLE users; --''), (''role'', SStr ''admin'')])
   \<and> set (str_int 25) \<subseteq> set ''0123456789''
   \<and> map sql_text (get_articles_statements 3 25 (Some ''a''))
     = map sql_text (get_articles_statements 3 25 (Some ''%' OR 1=1''))"
  using statements_bind_values
          [where d = "[(''username'', SStr ''bob''), (''role'', SStr ''user'')]"
             and d' = "[(''username'', SStr ''x'); DROP TABLE users; --''),
                        (''role'', SStr ''admin'')]"
             and t = "''users''" and pg = 3 and ps = 25
             and s = "''a''" and s' = "''%' OR 1=1''"]
  by simp

text \<open>
  The claim as stated, that what is formatted into a statement never comes from the
  user, fails for pagination: the page number of the request changes the text of the
  listing query.
\<close>

theorem statements_text_counterexample:
  "api_get_articles 1 10 None \<noteq> api_get_articles 2 10 None
   \<and> map sql_text (get_articles_statements 1 10 None)
     \<noteq> map sql_text (get_articles_statements 2 10 None)"
  by (simp add: api_get_articles_def get_articles_statements_def
      fetch_paginated_statements_def paginated_sql_def window_offset_def search_given_def
      str_int_def str_nat.simps digit_def Let_def)

section \<open>The pool is created lazily, once when calls do not overlap\<close>

text \<open>
  A call that finds the pool set changes nothing.
\<close>

lemma ensure_pool_set: "pool s \<noteq> None \<Longrightarrow> ensure_pool ok s = (Inr (), s)"
  by (cases "pool s") (simp_all add: ensure_pool_def)

lemma ensure_pool_calls_set: "pool s \<noteq> None \<Longrightarrow> ensure_pool_calls oks s = s"
  by (induction oks) (simp_all add: ensure_pool_set)

lemma ensure_pool_calls_once:
  "pool s = None \<Longrightarrow>
     pools_created (ensure_pool_calls oks s) =
       (if True \<in> set oks then Suc (pools_created s) else pools_created s)
     \<and> (pool (ensure_pool_calls oks s) =
       (if True \<in> set oks then Some (pools_created s) else None))"
proof (induction oks)
  case Nil
  then show ?case by simp
next
  case (Cons ok oks)
  show ?case
  proof (cases ok)
    case True
    have created: "snd (ensure_pool True s) =
        s\<lparr>pools_created := Suc (pools_created s), pool := Some (pools_created s)\<rparr>"
      using Cons.prems by (simp add: ensure_pool_def create_pool_def)
    then have "pool (snd (ensure_pool True s)) \<noteq> None"
      by simp
    then have "ensure_pool_calls oks (snd (ensure_pool True s)) = snd (ensure_pool True s)"
      by (rule ensure_pool_calls_set)
    with True created show ?thesis
      by simp
  next
    case False
    have "snd (ensure_pool False s) = s"
      using Cons.prems by (simp add: ensure_pool_def create_pool_def)
    with False Cons show ?thesis by simp
  qed
qed

lemma ensure_step_alone:
  "(case ensure_step ok Entry s of (pc, s') \<Rightarrow> ensure_step ok pc s')
     = (Returned (fst (ensure_pool ok s)), snd (ensure_pool ok s))"
  by (simp add: ensure_pool_def split: sum.splits prod.splits)

lemma new_once:
  "fst (new (snd (new cls))) = fst (new cls)
   \<and> snd (new (snd (new cls))) = snd (new cls)
   \<and> allocated (snd (new cls)) \<le> Suc (allocated cls)"
  by (simp add: new_def Let_def)

text \<open>
  Claim C5, as the code has it. \<^verbatim>\<open>_ensure_pool\<close> and \<^verbatim>\<open>init_pool\<close> are no-ops that
  leave the pool as it is once it is set. While it is unset, a failing creation raises the
  error to the caller and leaves the handler unchanged, so that a later call creates the
  pool; calls that follow one another create exactly one pool when one of them succeeds,
  and none otherwise. A call that runs alone through its two steps is \<open>ensure_pool\<close>.
  The instance of the handler is created once: a second \<^verbatim>\<open>__new__\<close> returns the same
  object and changes nothing. The lock guards the instance, not the pool.
\<close>

theorem pool_lifecycle:
  "(pool s \<noteq> None \<longrightarrow>
      ensure_pool ok s = (Inr (), s) \<and> init_pool ok s = (Inr (), s))
   \<and> (pool s = None \<longrightarrow>
      ensure_pool False s = (Inl PoolInitError, s)
      \<and> ensure_pool True s =
          (Inr (), \<lparr>pool = Some (pools_created s), pools_created = Suc (pools_created s)\<rparr>)
      \<and> pools_created (ensure_pool_calls oks s) =
          (if True \<in> set oks then Suc (pools_created s) else pools_created s)
      \<and> pool (ensure_pool_calls oks s) =
          (if True \<in> set oks then Some (pools_created s) else None))
   \<and> (case ensure_step ok Entry s of (pc, s') \<Rightarrow> ensure_step ok pc s')
        = (Returned (fst (ensure_pool ok s)), snd (ensure_pool ok s))
   \<and> fst (new (snd (new cls))) = fst (new cls)
   \<and> snd (new (snd (new cls))) = snd (new cls)
   \<and> allocated (snd (new cls)) \<le> Suc (allocated cls)"
proof (intro conjI impI)
  show "(case ensure_step ok Entry s of (pc, s') \<Rightarrow> ensure_step ok pc s')
        = (Returned (fst (ensure_pool ok s)), snd (ensure_pool ok s))"
    by (rule ensure_step_alone)
  show "pool s = None \<Longrightarrow> pools_created (ensure_pool_calls oks s) =
          (if True \<in> set oks then Suc (pools_created s) else pools_created s)"
    by (simp add: ensure_pool_calls_once)
  show "pool s = None \<Longrightarrow> pool (ensure_pool_calls oks s) =
          (if True \<in> set oks then Some (pools_created s) else None)"
    by (simp add: ensure_pool_calls_once)
  show "pool s \<noteq> None \<Longrightarrow> ensure_pool ok s = (Inr (), s)"
    by (rule ensure_pool_set)
  show "pool s \<noteq> None \<Longrightarrow> init_pool ok s = (Inr (), s)"
    unfolding init_pool_def by (rule ensure_pool_set)
qed (simp_all add: ensure_pool_def create_pool_def new_once)

text \<open>
  Two first uses that overlap: each call passes the check of \<^verbatim>\<open>self.pool\<close> before
  the other has assigned it, so both create a pool and the second assignment replaces the
  first pool.
\<close>

theorem pool_created_twice_counterexample:
  "run_schedule [(0, True), (1, True), (0, True), (1, True)]
     ([Entry, Entry], \<lparr>pool = None, pools_created = 0\<rparr>)
   = ([Returned (Inr ()), Returned (Inr ())], \<lparr>pool = Some 1, pools_created = 2\<rparr>)"
  by (simp add: create_pool_def)

text \<open>
  The theorem at a handler with a pool, and at a fresh one whose server fails first.
\<close>

theorem pool_lifecycle_witness:
  "ensure_pool True \<lparr>pool = Some 0, pools_created = 1\<rparr>
     = (Inr (), \<lparr>pool = Some 0, pools_created = 1\<rparr>)
   \<and> ensure_pool False \<lparr>pool = None, pools_created = 0\<rparr>
     = (Inl PoolInitError, \<lparr>pool = None, pools_created = 0\<rparr>)
   \<and> ensure_pool_calls [False, True, True, False] \<lparr>pool = None, pools_created = 0\<rparr>
     = \<lparr>pool = Some 0, pools_created = 1\<rparr>"
  using pool_lifecycle [where s = "\<lparr>pool = Some 0, pools_created = 1\<rparr>" and ok = True]
        pool_lifecycle [where s = "\<lparr>pool = None, pools_created = 0\<rparr>"
                          and oks = "[False, True, True, False]"]
  by (simp add: ensure_pool_def create_pool_def)

end
